theory Spec2Isabelle
  imports Main
begin

section \<open>Python strings\<close>

text \<open>
  Python \<open>str\<close> values are modelled as \<open>string\<close> (a list of characters).
  Repository names are ASCII, so \<open>str.lower\<close> is modelled on the letters
  \<open>A\<close> .. \<open>Z\<close>; every other character is left as it is.
\<close>

text \<open>\<open>s.replace(old, new)\<close> for a non-empty \<open>old\<close>: scan from the left,
  replacing each non-overlapping occurrence.  For an empty \<open>old\<close> Python puts
  \<open>new\<close> before every character and at the end.\<close>

fun replace_from :: "string \<Rightarrow> string \<Rightarrow> string \<Rightarrow> string" where
  "replace_from old new [] = []"
| "replace_from old new (c # cs) =
     (if take (length old) (c # cs) = old
      then new @ replace_from old new (drop (length old - 1) cs)
      else c # replace_from old new cs)"

definition str_replace :: "string \<Rightarrow> string \<Rightarrow> string \<Rightarrow> string" where
  "str_replace old new s =
     (if old = [] then new @ concat (map (\<lambda>c. c # new) s)
      else replace_from old new s)"

definition lower_chr :: "char \<Rightarrow> char" where
  "lower_chr c =
     (if (65::nat) \<le> of_char c \<and> of_char c \<le> (90::nat)
      then char_of (of_char c + (32::nat)) else c)"

definition str_lower :: "string \<Rightarrow> string" where
  "str_lower s = map lower_chr s"

text \<open>\<open>s.isascii()\<close>: every character is below 128.  On such strings
  \<open>str_lower\<close> is Python's \<open>str.lower\<close>.\<close>

definition str_isascii :: "string \<Rightarrow> bool" where
  "str_isascii s = list_all (\<lambda>c. of_char c < (128::nat)) s"

section \<open>The cache manager and its keys\<close>

text \<open>
  The fields of \<open>CacheManager\<close> that the operations read.  \<open>base_path\<close> is
  \<open>Path(__file__).parent.parent\<close>, a fact of the installation, and is taken as a
  parameter of the constructor.  The \<open>timeout\<close> argument only configures the
  daemon client and the image builder, which are part of the world the
  operations run in (see below).
\<close>

record cache_manager =
  base_path :: string
  repo :: string
  repo_id :: string
  repo_lower :: string

definition CacheManager_init :: "string \<Rightarrow> string \<Rightarrow> string \<Rightarrow> cache_manager" where
  "CacheManager_init bp r rid =
     \<lparr> base_path = bp,
       repo = str_replace ''/'' ''_'' r,
       repo_id = rid,
       repo_lower = str_lower (str_replace ''/'' ''_'' r) \<rparr>"

section \<open>Exceptions and log records\<close>

text \<open>
  The exceptions that can reach the manager.  \<open>ImageNotFound\<close> is a subclass of
  \<open>NotFound\<close> in the Docker SDK, so \<open>except docker.errors.NotFound\<close> catches
  both.  \<open>TransportError\<close> stands for the connection and timeout failures of the
  daemon.  Each exception carries the text that \<open>str(e)\<close> gives.
\<close>

datatype exn =
    NotFound string
  | ImageNotFound string
  | APIError string
  | TransportError string
  | BuildError string
  | CacheError string

fun str_exn :: "exn \<Rightarrow> string" where
  "str_exn (NotFound m) = m"
| "str_exn (ImageNotFound m) = m"
| "str_exn (APIError m) = m"
| "str_exn (TransportError m) = m"
| "str_exn (BuildError m) = m"
| "str_exn (CacheError m) = m"

fun is_NotFound :: "exn \<Rightarrow> bool" where
  "is_NotFound (NotFound m) = True"
| "is_NotFound (ImageNotFound m) = True"
| "is_NotFound e = False"

fun is_ImageNotFound :: "exn \<Rightarrow> bool" where
  "is_ImageNotFound (ImageNotFound m) = True"
| "is_ImageNotFound e = False"

datatype level = INFO | WARNING | ERROR

section \<open>Container configuration\<close>

record container_config =
  name :: string
  command :: string
  detach :: bool
  tty :: bool
  runtime :: string
  network_mode :: string
  device_requests :: "(int \<times> string list list) list"
  environment :: "(string \<times> string) list"
  volumes :: "(string \<times> string \<times> string) list"
  user :: "string option"

text \<open>What the host tells the manager: \<open>os.name\<close>, \<open>os.getuid()\<close>,
  \<open>os.getgid()\<close>, and the constant \<open>DOCKER_ENVIRONMENT\<close> of the configuration
  module.\<close>

record host =
  os_name :: string
  uid :: nat
  gid :: nat
  DOCKER_ENVIRONMENT :: "(string \<times> string) list"

fun str_nat :: "nat \<Rightarrow> string" where
  "str_nat n =
     (if n < 10 then [char_of (48 + n)]
      else str_nat (n div 10) @ [char_of (48 + n mod 10)])"

declare str_nat.simps [simp del]

section \<open>The daemon, the image builder and the log\<close>

datatype container = Container (cname: string)

datatype call =
    GetContainer string
  | Start string
  | Remove string bool
  | Run string container_config
  | GetImage string
  | Commit string string string
  | Build string

text \<open>
  The world the manager runs in: the containers of the daemon (name to status),
  its images (reference to image id), the failures the daemon or the builder
  will answer a call with, the id the daemon gives the next committed image,
  the image reference the builder returns for a repository, every call made
  so far, and the records written to the logger.
\<close>

record world =
  containers :: "string \<rightharpoonup> string"
  images :: "string \<rightharpoonup> string"
  faults :: "call \<Rightarrow> exn option"
  fresh_id :: string
  built_ref :: "string \<Rightarrow> string"
  calls :: "call list"
  log :: "(level \<times> string) list"

definition record_call :: "call \<Rightarrow> world \<Rightarrow> world" where
  "record_call c w = w\<lparr>calls := calls w @ [c]\<rparr>"

definition logger :: "level \<Rightarrow> string \<Rightarrow> world \<Rightarrow> world" where
  "logger l m w = w\<lparr>log := log w @ [(l, m)]\<rparr>"

text \<open>The status of a container as the daemon reports it.\<close>

definition status :: "world \<Rightarrow> container \<Rightarrow> string option" where
  "status w c = containers w (cname c)"

text \<open>
  Modelled from the spec: the Daemon Gateway of section 4.2 (the Docker SDK is
  not part of the repository).  Every operation records its call and fails with
  the injected fault when there is one; a lookup of an absent container or image
  fails with not-found; a successful start or run leaves the container
  \<open>running\<close>; a container name is unique; commit is defined for a running
  container and stores the new image under the target key, whatever was
  there.
\<close>

definition containers_get :: "string \<Rightarrow> world \<Rightarrow> (exn + container) \<times> world" where
  "containers_get n w =
     (let w' = record_call (GetContainer n) w in
      case faults w (GetContainer n) of
        Some e \<Rightarrow> (Inl e, w')
      | None \<Rightarrow>
          (case containers w n of
             None \<Rightarrow> (Inl (NotFound (''No such container: '' @ n)), w')
           | Some s \<Rightarrow> (Inr (Container n), w')))"

definition container_start :: "container \<Rightarrow> world \<Rightarrow> (exn + unit) \<times> world" where
  "container_start c w =
     (let w' = record_call (Start (cname c)) w in
      case faults w (Start (cname c)) of
        Some e \<Rightarrow> (Inl e, w')
      | None \<Rightarrow>
          (case containers w (cname c) of
             None \<Rightarrow> (Inl (NotFound (''No such container: '' @ cname c)), w')
           | Some s \<Rightarrow> (Inr (), w'\<lparr>containers := (containers w)(cname c \<mapsto> ''running'')\<rparr>)))"

definition container_remove :: "container \<Rightarrow> bool \<Rightarrow> world \<Rightarrow> (exn + unit) \<times> world" where
  "container_remove c force w =
     (let w' = record_call (Remove (cname c) force) w in
      case faults w (Remove (cname c) force) of
        Some e \<Rightarrow> (Inl e, w')
      | None \<Rightarrow>
          (case containers w (cname c) of
             None \<Rightarrow> (Inl (NotFound (''No such container: '' @ cname c)), w')
           | Some s \<Rightarrow>
               (if s = ''running'' \<and> \<not> force
                then (Inl (APIError (''cannot remove a running container: '' @ cname c)), w')
                else (Inr (), w'\<lparr>containers := (containers w)(cname c := None)\<rparr>))))"

definition containers_run :: "string \<Rightarrow> container_config \<Rightarrow> world \<Rightarrow> (exn + container) \<times> world" where
  "containers_run img cfg w =
     (let w' = record_call (Run img cfg) w in
      case faults w (Run img cfg) of
        Some e \<Rightarrow> (Inl e, w')
      | None \<Rightarrow>
          (case images w img of
             None \<Rightarrow> (Inl (ImageNotFound (''No such image: '' @ img)), w')
           | Some i \<Rightarrow>
               (case containers w (name cfg) of
                  Some s \<Rightarrow> (Inl (APIError (''Conflict. The container name is already in use: '' @ name cfg)), w')
                | None \<Rightarrow>
                    (Inr (Container (name cfg)),
                     w'\<lparr>containers := (containers w)(name cfg \<mapsto> ''running'')\<rparr>))))"

definition images_get :: "string \<Rightarrow> world \<Rightarrow> (exn + string) \<times> world" where
  "images_get k w =
     (let w' = record_call (GetImage k) w in
      case faults w (GetImage k) of
        Some e \<Rightarrow> (Inl e, w')
      | None \<Rightarrow>
          (case images w k of
             None \<Rightarrow> (Inl (ImageNotFound (''No such image: '' @ k)), w')
           | Some i \<Rightarrow> (Inr i, w')))"

definition container_commit :: "container \<Rightarrow> string \<Rightarrow> string \<Rightarrow> world \<Rightarrow> (exn + string) \<times> world" where
  "container_commit c repository tag w =
     (let w' = record_call (Commit (cname c) repository tag) w in
      case faults w (Commit (cname c) repository tag) of
        Some e \<Rightarrow> (Inl e, w')
      | None \<Rightarrow>
          (case containers w (cname c) of
             None \<Rightarrow> (Inl (NotFound (''No such container: '' @ cname c)), w')
           | Some s \<Rightarrow>
               (if s \<noteq> ''running''
                then (Inl (APIError (''container is not running: '' @ cname c)), w')
                else
                  (Inr (fresh_id w),
                   w'\<lparr>images := (images w)(repository @ '':'' @ tag \<mapsto> fresh_id w)\<rparr>))))"

text \<open>
  Modelled from the spec: the Build Trigger of section 6
  (\<open>DockerImageBuilder.build_image\<close> is not under the sources).  It produces a
  valid image reference or raises a build failure.
\<close>

definition build_image :: "string \<Rightarrow> world \<Rightarrow> (exn + string) \<times> world" where
  "build_image r w =
     (let w' = record_call (Build r) w in
      case faults w (Build r) of
        Some e \<Rightarrow> (Inl e, w')
      | None \<Rightarrow>
          (Inr (built_ref w r),
           w'\<lparr>images := (images w)(built_ref w r \<mapsto> fresh_id w)\<rparr>))"

section \<open>The operations of \<open>CacheManager\<close>\<close>

text \<open>\<open>common_container_config\<close>: the creation parameters shared by every
  container the manager runs; on a POSIX host it logs and adds the user.\<close>

definition common_container_config :: "cache_manager \<Rightarrow> host \<Rightarrow> world \<Rightarrow> container_config \<times> world" where
  "common_container_config cm h w =
     (let config =
        \<lparr> name = repo cm,
          command = ''/bin/bash'',
          detach = True,
          tty = True,
          runtime = ''nvidia'',
          network_mode = ''host'',
          device_requests = [(- 1, [[''gpu'']])],
          environment = DOCKER_ENVIRONMENT h,
          volumes = [(base_path cm @ ''/swap'', ''/workdir/swap'', ''rw'')],
          user = None \<rparr>
      in if os_name h = ''posix''
         then (config\<lparr>user := Some (str_nat (uid h) @ '':'' @ str_nat (gid h))\<rparr>,
               logger INFO (''Running on POSIX system, setting container user to UID=''
                              @ str_nat (uid h) @ '', GID='' @ str_nat (gid h)) w)
         else (config, w))"

text \<open>The two \<open>except\<close> clauses of \<open>check_cached_container\<close>: both return
  \<open>None\<close>; they differ in the log record.\<close>

definition check_cached_container_except :: "cache_manager \<Rightarrow> exn \<Rightarrow> world \<Rightarrow> (exn + container option) \<times> world" where
  "check_cached_container_except cm e w =
     (if is_NotFound e
      then (Inr None, logger INFO (''Cached container not found: '' @ repo cm) w)
      else (Inr None, logger ERROR (''Error checking cached container: '' @ str_exn e) w))"

definition check_cached_container :: "cache_manager \<Rightarrow> world \<Rightarrow> (exn + container option) \<times> world" where
  "check_cached_container cm w =
     (case containers_get (repo cm) w of
        (Inl e, w1) \<Rightarrow> check_cached_container_except cm e w1
      | (Inr c, w1) \<Rightarrow>
          (if status w1 c = Some ''running''
           then (Inr (Some c), logger INFO (''Found running cached container: '' @ repo cm) w1)
           else if status w1 c = Some ''exited''
           then
             (case container_start c
                     (logger INFO (''Found stopped cached container: '' @ repo cm @ '', restarting...'') w1) of
                (Inl e, w2) \<Rightarrow> check_cached_container_except cm e w2
              | (Inr u, w2) \<Rightarrow> (Inr (Some c), w2))
           else
             (case container_remove c True
                     (logger WARNING (''Container '' @ repo cm @ '' status abnormal: ''
                                        @ (case status w1 c of Some s \<Rightarrow> s | None \<Rightarrow> ''None'')
                                        @ '', will recreate'') w1) of
                (Inl e, w2) \<Rightarrow> check_cached_container_except cm e w2
              | (Inr u, w2) \<Rightarrow> (Inr None, w2))))"

definition save_container_as_image :: "cache_manager \<Rightarrow> container \<Rightarrow> world \<Rightarrow> (exn + string) \<times> world" where
  "save_container_as_image cm c w =
     (let image_name = ''featbench_'' @ repo_lower cm in
      case container_commit c image_name (repo_id cm)
             (logger INFO (''Saving container as image: '' @ image_name) w) of
        (Inr image_id, w1) \<Rightarrow>
          (Inr image_id,
           logger INFO (''Successfully saved image: '' @ image_name @ '':latest (ID: ''
                          @ take 12 image_id @ '')'') w1)
      | (Inl e, w1) \<Rightarrow>
          (Inl (CacheError (''Failed to save container image: '' @ str_exn e)),
           logger ERROR (''Failed to save container image: '' @ str_exn e) w1))"

definition check_cached_image :: "cache_manager \<Rightarrow> world \<Rightarrow> (exn + bool) \<times> world" where
  "check_cached_image cm w =
     (let image_name = ''featbench_'' @ repo_lower cm @ '':'' @ repo_id cm in
      case images_get image_name w of
        (Inr i, w1) \<Rightarrow> (Inr True, logger INFO (''Found cached image: '' @ image_name) w1)
      | (Inl e, w1) \<Rightarrow>
          (if is_ImageNotFound e
           then (Inr False, logger INFO (''Cached image not found: '' @ image_name) w1)
           else (Inr False, logger ERROR (''Error checking cached image: '' @ str_exn e) w1)))"

definition create_container_from_cached_image :: "cache_manager \<Rightarrow> host \<Rightarrow> world \<Rightarrow> (exn + container) \<times> world" where
  "create_container_from_cached_image cm h w =
     (let image_name = ''featbench_'' @ repo_lower cm @ '':'' @ repo_id cm;
          w1 = logger INFO (''Creating container from cached image: '' @ image_name) w;
          (config, w2) = common_container_config cm h w1
      in case containers_run image_name config w2 of
           (Inl e, w3) \<Rightarrow> (Inl e, w3)
         | (Inr c, w3) \<Rightarrow>
             (Inr c, logger INFO (''Successfully created container from cached image: '' @ repo cm) w3))"

definition create_new_container :: "cache_manager \<Rightarrow> host \<Rightarrow> world \<Rightarrow> (exn + container) \<times> world" where
  "create_new_container cm h w =
     (case build_image (repo cm) (logger INFO (''Creating new container: '' @ repo cm) w) of
        (Inl e, w1) \<Rightarrow> (Inl e, w1)
      | (Inr image_name, w1) \<Rightarrow>
          (let (config, w2) = common_container_config cm h w1
           in case containers_run image_name config w2 of
                (Inl e, w3) \<Rightarrow> (Inl e, w3)
              | (Inr c, w3) \<Rightarrow>
                  (Inr c, logger INFO (''Container '' @ repo cm @ '' created successfully'') w3)))"

text \<open>
  Modelled from the spec: the acquire protocol of section 4.3 (the caller that
  sequences the operations of \<open>CacheManager\<close> is not under the sources).  Look up
  the container; without a usable container look up the image and run a
  container from it; without a cached image build one and run a container from
  the result.
\<close>

definition acquireEnvironment :: "cache_manager \<Rightarrow> host \<Rightarrow> world \<Rightarrow> (exn + container) \<times> world" where
  "acquireEnvironment cm h w =
     (case check_cached_container cm w of
        (Inl e, w1) \<Rightarrow> (Inl e, w1)
      | (Inr (Some c), w1) \<Rightarrow> (Inr c, w1)
      | (Inr None, w1) \<Rightarrow>
          (case check_cached_image cm w1 of
             (Inl e, w2) \<Rightarrow> (Inl e, w2)
           | (Inr True, w2) \<Rightarrow> create_container_from_cached_image cm h w2
           | (Inr False, w2) \<Rightarrow> create_new_container cm h w2))"

text \<open>The image key of the spec, \<open>featbench_{normalizedRepoLower}:{taskId}\<close>.\<close>

definition imageKey :: "cache_manager \<Rightarrow> string" where
  "imageKey cm = ''featbench_'' @ repo_lower cm @ '':'' @ repo_id cm"

section \<open>Concrete managers and worlds\<close>

definition cm_demo :: cache_manager where
  "cm_demo = CacheManager_init ''/opt/docker_agent'' ''octocat/demo'' ''42''"

definition host_posix :: host where
  "host_posix = \<lparr> os_name = ''posix'', uid = 1000, gid = 1000,
                   DOCKER_ENVIRONMENT = [(''PYTHONUNBUFFERED'', ''1'')] \<rparr>"

definition no_faults :: "call \<Rightarrow> exn option" where
  "no_faults = (\<lambda>c. None)"

definition no_entries :: "string \<rightharpoonup> string" where
  "no_entries = (\<lambda>k. None)"

definition build_ref :: "string \<Rightarrow> string" where
  "build_ref = (\<lambda>r. ''featbench_build_'' @ r @ '':latest'')"

definition w_empty :: world where
  "w_empty = \<lparr> containers = no_entries, images = no_entries, faults = no_faults,
               fresh_id = ''sha256:0123456789abcdef'', built_ref = build_ref,
               calls = [], log = [] \<rparr>"

definition w_running :: world where
  "w_running = w_empty\<lparr>containers := no_entries(''octocat_demo'' \<mapsto> ''running'')\<rparr>"

definition w_exited :: world where
  "w_exited = w_empty\<lparr>containers := no_entries(''octocat_demo'' \<mapsto> ''exited'')\<rparr>"

definition w_exited_start_fails :: world where
  "w_exited_start_fails =
     w_exited\<lparr>faults := no_faults(Start ''octocat_demo'' \<mapsto> APIError ''cannot start container'')\<rparr>"

definition w_dead :: world where
  "w_dead = w_empty\<lparr>containers := no_entries(''octocat_demo'' \<mapsto> ''dead'')\<rparr>"

definition w_dead_remove_fails :: world where
  "w_dead_remove_fails =
     w_dead\<lparr>faults := no_faults(Remove ''octocat_demo'' True \<mapsto> TransportError ''Read timed out'')\<rparr>"

definition w_cached_image :: world where
  "w_cached_image =
     w_empty\<lparr>images := no_entries(''featbench_octocat_demo:42'' \<mapsto> ''sha256:feedfacecafe0001'')\<rparr>"

definition w_running_cached :: world where
  "w_running_cached =
     w_running\<lparr>images := no_entries(''featbench_octocat_demo:42'' \<mapsto> ''sha256:feedfacecafe0001'')\<rparr>"

definition w_unreachable :: world where
  "w_unreachable =
     w_running_cached\<lparr>faults :=
       no_faults(GetContainer ''octocat_demo'' \<mapsto> TransportError ''Connection refused'',
                 GetImage ''featbench_octocat_demo:42'' \<mapsto> TransportError ''Connection refused'')\<rparr>"

definition w_commit_timeout :: world where
  "w_commit_timeout =
     w_running\<lparr>faults :=
       no_faults(Commit ''octocat_demo'' ''featbench_octocat_demo'' ''42''
                   \<mapsto> TransportError ''Read timed out'')\<rparr>"

definition w_exited_start_notfound :: world where
  "w_exited_start_notfound =
     w_exited\<lparr>faults :=
       no_faults(Start ''octocat_demo'' \<mapsto> NotFound ''No such container: octocat_demo'')\<rparr>"

definition w_dead_remove_notfound :: world where
  "w_dead_remove_notfound =
     w_dead\<lparr>faults :=
       no_faults(Remove ''octocat_demo'' True \<mapsto> NotFound ''No such container: octocat_demo'')\<rparr>"

definition w_commit_conflict :: world where
  "w_commit_conflict =
     w_running_cached\<lparr>faults :=
       no_faults(Commit ''octocat_demo'' ''featbench_octocat_demo'' ''42''
                   \<mapsto> APIError ''conflict: image already exists'')\<rparr>"

definition w_after_checkpoint :: world where
  "w_after_checkpoint = snd (save_container_as_image cm_demo (Container ''octocat_demo'') w_running)"

definition w_reacquire :: world where
  "w_reacquire = snd (container_remove (Container ''octocat_demo'') True w_after_checkpoint)"

definition w_reacquire_unreachable :: world where
  "w_reacquire_unreachable =
     w_reacquire\<lparr>faults :=
       no_faults(GetImage ''featbench_octocat_demo:42'' \<mapsto> TransportError ''Connection refused'')\<rparr>"

section \<open>Facts about the key derivation\<close>

lemma replace_from_single:
  "replace_from [a] [b] s = map (\<lambda>c. if c = a then b else c) s"
  by (induction s) auto

lemma str_replace_single:
  "str_replace [a] [b] s = map (\<lambda>c. if c = a then b else c) s"
  by (simp add: str_replace_def replace_from_single)

lemma cm_demo_repo: "repo cm_demo = ''octocat_demo''"
  unfolding cm_demo_def by code_simp

lemma cm_demo_repo_lower: "repo_lower cm_demo = ''octocat_demo''"
  unfolding cm_demo_def by code_simp

lemma cm_demo_repo_id: "repo_id cm_demo = ''42''"
  unfolding cm_demo_def by code_simp

lemmas gateway_defs =
  containers_get_def container_start_def container_remove_def containers_run_def
  images_get_def container_commit_def build_image_def record_call_def logger_def status_def

lemmas manager_defs =
  check_cached_container_def check_cached_container_except_def save_container_as_image_def
  check_cached_image_def create_container_from_cached_image_def create_new_container_def
  common_container_config_def

lemmas world_defs =
  w_empty_def w_running_def w_exited_def w_exited_start_fails_def w_dead_def
  w_dead_remove_fails_def w_cached_image_def w_running_cached_def w_unreachable_def
  w_commit_timeout_def w_exited_start_notfound_def w_dead_remove_notfound_def
  w_commit_conflict_def no_faults_def no_entries_def build_ref_def host_posix_def

lemmas cm_demo_simps = cm_demo_repo cm_demo_repo_lower cm_demo_repo_id

lemmas eval_simps = manager_defs gateway_defs world_defs cm_demo_simps Let_def

lemma check_cached_image_calls:
  "calls (snd (check_cached_image cm w)) =
     calls w @ [GetImage (''featbench_'' @ repo_lower cm @ '':'' @ repo_id cm)]"
  by (simp add: check_cached_image_def images_get_def record_call_def logger_def Let_def
           split: option.split)

lemma lower_chr_table:
  "lower_chr c =
     (case map_of (zip ''ABCDEFGHIJKLMNOPQRSTUVWXYZ'' ''abcdefghijklmnopqrstuvwxyz'') c of
        Some l \<Rightarrow> l | None \<Rightarrow> c)"
proof (cases c)
  case (Char b0 b1 b2 b3 b4 b5 b6 b7)
  show ?thesis
    unfolding Char
    by (cases b0; cases b1; cases b2; cases b3; cases b4; cases b5; cases b6; cases b7;
        simp add: lower_chr_def char_of_def bit_Suc bit_0)
qed

text \<open>
  C4.  For every repository name and task id the constructor replaces each
  \<open>/\<close> by \<open>_\<close> to form the container key, and the image lookup asks the
  daemon for exactly \<open>featbench_{namespace}:{task id}\<close>.  For every ASCII
  repository name (the names of repositories are ASCII) the namespace is the
  container key with each of the letters \<open>A\<close> .. \<open>Z\<close> replaced by its
  lower-case letter and every other character kept.  For \<open>octocat/demo\<close> and
  task \<open>42\<close> the container key and the namespace are \<open>octocat_demo\<close> and the
  image key is \<open>featbench_octocat_demo:42\<close>; for \<open>Octocat/Demo\<close> the container
  key is \<open>Octocat_Demo\<close>, the namespace \<open>octocat_demo\<close> and the image key
  again \<open>featbench_octocat_demo:42\<close>.
\<close>

theorem key_derivation:
  "repo (CacheManager_init bp r t) = map (\<lambda>c. if c = CHR ''/'' then CHR ''_'' else c) r
   \<and> calls (snd (check_cached_image (CacheManager_init bp r t) w)) =
       calls w @ [GetImage (''featbench_'' @ repo_lower (CacheManager_init bp r t) @ '':'' @ t)]
   \<and> (str_isascii r \<longrightarrow>
        repo_lower (CacheManager_init bp r t) =
          map (\<lambda>c. case map_of (zip ''ABCDEFGHIJKLMNOPQRSTUVWXYZ''
                                      ''abcdefghijklmnopqrstuvwxyz'') c of
                      Some l \<Rightarrow> l | None \<Rightarrow> c)
              (repo (CacheManager_init bp r t)))
   \<and> repo (CacheManager_init bp ''octocat/demo'' ''42'') = ''octocat_demo''
   \<and> repo_lower (CacheManager_init bp ''octocat/demo'' ''42'') = ''octocat_demo''
   \<and> calls (snd (check_cached_image (CacheManager_init bp ''octocat/demo'' ''42'') w_empty)) =
       [GetImage ''featbench_octocat_demo:42'']
   \<and> repo (CacheManager_init bp ''Octocat/Demo'' ''42'') = ''Octocat_Demo''
   \<and> repo_lower (CacheManager_init bp ''Octocat/Demo'' ''42'') = ''octocat_demo''
   \<and> calls (snd (check_cached_image (CacheManager_init bp ''Octocat/Demo'' ''42'') w_empty)) =
       [GetImage ''featbench_octocat_demo:42'']"
proof -
  have a: "repo (CacheManager_init bp r t) = map (\<lambda>c. if c = CHR ''/'' then CHR ''_'' else c) r"
    by (simp add: CacheManager_init_def str_replace_single)
  have b: "calls (snd (check_cached_image (CacheManager_init bp r t) w)) =
       calls w @ [GetImage (''featbench_'' @ repo_lower (CacheManager_init bp r t) @ '':'' @ t)]"
    by (simp add: check_cached_image_calls) (simp add: CacheManager_init_def)
  have c: "repo_lower (CacheManager_init bp r t) =
          map (\<lambda>c. case map_of (zip ''ABCDEFGHIJKLMNOPQRSTUVWXYZ''
                                      ''abcdefghijklmnopqrstuvwxyz'') c of
                      Some l \<Rightarrow> l | None \<Rightarrow> c)
              (repo (CacheManager_init bp r t))"
    unfolding CacheManager_init_def str_lower_def
    by (simp only: cache_manager.simps) (rule map_cong[OF refl], rule lower_chr_table)
  have d: "repo (CacheManager_init bp ''octocat/demo'' ''42'') = ''octocat_demo''"
    by (simp add: CacheManager_init_def str_replace_single)
  have e: "repo_lower (CacheManager_init bp ''octocat/demo'' ''42'') = ''octocat_demo''"
    by code_simp
  have f: "calls (snd (check_cached_image (CacheManager_init bp ''octocat/demo'' ''42'') w_empty)) =
       [GetImage ''featbench_octocat_demo:42'']"
    by (simp add: check_cached_image_calls e) (simp add: CacheManager_init_def w_empty_def)
  have g: "repo (CacheManager_init bp ''Octocat/Demo'' ''42'') = ''Octocat_Demo''"
    by (simp add: CacheManager_init_def str_replace_single)
  have h: "repo_lower (CacheManager_init bp ''Octocat/Demo'' ''42'') = ''octocat_demo''"
    by code_simp
  have i: "calls (snd (check_cached_image (CacheManager_init bp ''Octocat/Demo'' ''42'') w_empty)) =
       [GetImage ''featbench_octocat_demo:42'']"
    by (simp add: check_cached_image_calls h) (simp add: CacheManager_init_def w_empty_def)
  show ?thesis using a b c d e f g h i by blast
qed

text \<open>C4 at the ASCII name \<open>Octo-Cat/De.mo_Z9\<close>.\<close>

theorem key_derivation_witness:
  "str_isascii ''Octo-Cat/De.mo_Z9''
   \<and> repo_lower (CacheManager_init ''/opt/docker_agent'' ''Octo-Cat/De.mo_Z9'' ''7'') =
       map (\<lambda>c. case map_of (zip ''ABCDEFGHIJKLMNOPQRSTUVWXYZ''
                                   ''abcdefghijklmnopqrstuvwxyz'') c of
                   Some l \<Rightarrow> l | None \<Rightarrow> c)
           (repo (CacheManager_init ''/opt/docker_agent'' ''Octo-Cat/De.mo_Z9'' ''7''))
   \<and> repo_lower (CacheManager_init ''/opt/docker_agent'' ''Octo-Cat/De.mo_Z9'' ''7'')
       = ''octo-cat_de.mo_z9''"
proof -
  have h: "str_isascii ''Octo-Cat/De.mo_Z9''"
    by code_simp
  note t = key_derivation[of "''/opt/docker_agent''" "''Octo-Cat/De.mo_Z9''" "''7''" w_empty]
  from t h have c1: "repo_lower (CacheManager_init ''/opt/docker_agent'' ''Octo-Cat/De.mo_Z9'' ''7'') =
       map (\<lambda>c. case map_of (zip ''ABCDEFGHIJKLMNOPQRSTUVWXYZ''
                                   ''abcdefghijklmnopqrstuvwxyz'') c of
                   Some l \<Rightarrow> l | None \<Rightarrow> c)
           (repo (CacheManager_init ''/opt/docker_agent'' ''Octo-Cat/De.mo_Z9'' ''7''))"
    by blast
  have r: "repo (CacheManager_init ''/opt/docker_agent'' ''Octo-Cat/De.mo_Z9'' ''7'')
             = ''Octo-Cat_De.mo_Z9''"
    by (simp add: CacheManager_init_def str_replace_single)
  have c2: "repo_lower (CacheManager_init ''/opt/docker_agent'' ''Octo-Cat/De.mo_Z9'' ''7'')
       = ''octo-cat_de.mo_z9''"
    unfolding c1 r by simp
  show ?thesis by (intro conjI h c1 c2)
qed

text \<open>
  C8, as the spec states it: two distinct repository names that normalise to
  the same container key are reported as a fatal configuration error.  The
  constructor has no failure case and detects nothing: \<open>a/b_c\<close> and \<open>a_b/c\<close>
  both get the container key \<open>a_b_c\<close>, and with the same task id the same
  image key.
\<close>

theorem key_collision_counterexample:
  "''a/b_c'' \<noteq> ''a_b/c''
   \<and> repo (CacheManager_init ''/opt/docker_agent'' ''a/b_c'' ''1'') = ''a_b_c''
   \<and> repo (CacheManager_init ''/opt/docker_agent'' ''a_b/c'' ''1'') = ''a_b_c''
   \<and> imageKey (CacheManager_init ''/opt/docker_agent'' ''a/b_c'' ''1'')
       = imageKey (CacheManager_init ''/opt/docker_agent'' ''a_b/c'' ''1'')"
  by (simp add: CacheManager_init_def str_replace_single imageKey_def)

text \<open>
  C8, amended.  Key derivation never fails and checks for no collision; it is
  injective on the repository names that contain no underscore: two such names
  with the same container key are the same name.
\<close>

theorem key_injective_without_underscore:
  assumes "CHR ''_'' \<notin> set r1" and "CHR ''_'' \<notin> set r2"
    and "repo (CacheManager_init bp1 r1 t1) = repo (CacheManager_init bp2 r2 t2)"
  shows "r1 = r2"
proof -
  let ?f = "\<lambda>c. if c = CHR ''/'' then CHR ''_'' else c"
  from assms(3) have eq: "map ?f r1 = map ?f r2"
    by (simp add: CacheManager_init_def str_replace_single)
  have "inj_on ?f (set r1 \<union> set r2)"
    using assms(1,2) by (auto simp: inj_on_def split: if_splits)
  with eq show ?thesis
    by (rule inj_on_map_eq_map[THEN iffD1, rotated])
qed

theorem key_injective_without_underscore_witness:
  "CHR ''_'' \<notin> set ''octocat/demo'' \<and> CHR ''_'' \<notin> set ''octocat/demo''
   \<and> repo (CacheManager_init ''/a'' ''octocat/demo'' ''1'')
       = repo (CacheManager_init ''/b'' ''octocat/demo'' ''2'')
   \<and> ''octocat/demo'' = ''octocat/demo''"
proof -
  have h1: "CHR ''_'' \<notin> set ''octocat/demo''" by simp
  have h3: "repo (CacheManager_init ''/a'' ''octocat/demo'' ''1'')
              = repo (CacheManager_init ''/b'' ''octocat/demo'' ''2'')"
    by (simp add: CacheManager_init_def)
  from key_injective_without_underscore[OF h1 h1 h3]
  have c: "''octocat/demo'' = ''octocat/demo''" .
  show ?thesis by (intro conjI h1 h3 c)
qed

section \<open>The returned handle\<close>

lemma check_cached_container_running:
  "fst (check_cached_container cm w) = Inr (Some c) \<Longrightarrow>
   status (snd (check_cached_container cm w)) c = Some ''running''"
  by (auto simp: manager_defs gateway_defs Let_def split: option.splits if_splits)

lemma create_container_from_cached_image_running:
  "fst (create_container_from_cached_image cm h w) = Inr c \<Longrightarrow>
   status (snd (create_container_from_cached_image cm h w)) c = Some ''running''"
  by (auto simp: manager_defs gateway_defs Let_def split: option.splits if_splits)

lemma create_new_container_running:
  "fst (create_new_container cm h w) = Inr c \<Longrightarrow>
   status (snd (create_new_container cm h w)) c = Some ''running''"
  by (auto simp: manager_defs gateway_defs Let_def split: option.splits if_splits)

lemma check_cached_container_exited_calls:
  "faults w (GetContainer (repo cm)) = None \<Longrightarrow> containers w (repo cm) = Some ''exited'' \<Longrightarrow>
   calls (snd (check_cached_container cm w)) = calls w @ [GetContainer (repo cm), Start (repo cm)]"
  by (auto simp: manager_defs gateway_defs Let_def split: option.splits if_splits)

lemma check_cached_container_exited_started:
  "faults w (GetContainer (repo cm)) = None \<Longrightarrow> containers w (repo cm) = Some ''exited'' \<Longrightarrow>
   faults w (Start (repo cm)) = None \<Longrightarrow>
   fst (check_cached_container cm w) = Inr (Some (Container (repo cm)))"
  by (auto simp: manager_defs gateway_defs Let_def split: option.splits if_splits)

text \<open>
  C1.  Every handle that an operation of the manager returns is \<open>running\<close>:
  the handle of \<open>check_cached_container\<close> (a running container reused, an
  exited one restarted), of \<open>create_container_from_cached_image\<close> and of
  \<open>create_new_container\<close>.  When the lookup finds the container \<open>exited\<close>,
  the manager makes exactly the lookup and one start call, and when that
  start succeeds it returns the handle, which is \<open>running\<close>.
\<close>

theorem returned_handle_running:
  "(fst (check_cached_container cm w) = Inr (Some c) \<longrightarrow>
      status (snd (check_cached_container cm w)) c = Some ''running'')
   \<and> (fst (create_container_from_cached_image cm h w) = Inr c \<longrightarrow>
      status (snd (create_container_from_cached_image cm h w)) c = Some ''running'')
   \<and> (fst (create_new_container cm h w) = Inr c \<longrightarrow>
      status (snd (create_new_container cm h w)) c = Some ''running'')
   \<and> (faults w (GetContainer (repo cm)) = None \<and> containers w (repo cm) = Some ''exited'' \<longrightarrow>
        calls (snd (check_cached_container cm w))
          = calls w @ [GetContainer (repo cm), Start (repo cm)]
        \<and> (faults w (Start (repo cm)) = None \<longrightarrow>
             fst (check_cached_container cm w) = Inr (Some (Container (repo cm)))
             \<and> status (snd (check_cached_container cm w)) (Container (repo cm)) = Some ''running''))"
  using check_cached_container_running create_container_from_cached_image_running
    create_new_container_running check_cached_container_exited_calls
    check_cached_container_exited_started
  by blast

theorem returned_handle_running_witness:
  "(fst (check_cached_container cm_demo w_exited) = Inr (Some (Container ''octocat_demo''))
    \<and> status (snd (check_cached_container cm_demo w_exited)) (Container ''octocat_demo'')
        = Some ''running'')
   \<and> (fst (create_container_from_cached_image cm_demo host_posix w_cached_image)
        = Inr (Container ''octocat_demo'')
      \<and> status (snd (create_container_from_cached_image cm_demo host_posix w_cached_image))
          (Container ''octocat_demo'') = Some ''running'')
   \<and> (fst (create_new_container cm_demo host_posix w_empty) = Inr (Container ''octocat_demo'')
      \<and> status (snd (create_new_container cm_demo host_posix w_empty))
          (Container ''octocat_demo'') = Some ''running'')
   \<and> (faults w_exited (GetContainer (repo cm_demo)) = None
      \<and> containers w_exited (repo cm_demo) = Some ''exited''
      \<and> faults w_exited (Start (repo cm_demo)) = None
      \<and> calls (snd (check_cached_container cm_demo w_exited))
          = calls w_exited @ [GetContainer (repo cm_demo), Start (repo cm_demo)])"
proof -
  let ?c = "Container ''octocat_demo''"
  have h1: "fst (check_cached_container cm_demo w_exited) = Inr (Some ?c)"
    by (simp add: eval_simps)
  have h2: "fst (create_container_from_cached_image cm_demo host_posix w_cached_image) = Inr ?c"
    by (simp add: eval_simps)
  have h3: "fst (create_new_container cm_demo host_posix w_empty) = Inr ?c"
    by (simp add: eval_simps)
  have h4: "faults w_exited (GetContainer (repo cm_demo)) = None"
    by (simp add: world_defs)
  have h5: "containers w_exited (repo cm_demo) = Some ''exited''"
    by (simp add: world_defs cm_demo_simps)
  have h6: "faults w_exited (Start (repo cm_demo)) = None"
    by (simp add: world_defs)
  note t1 = returned_handle_running[of cm_demo w_exited ?c host_posix]
  note t2 = returned_handle_running[of cm_demo w_cached_image ?c host_posix]
  note t3 = returned_handle_running[of cm_demo w_empty ?c host_posix]
  from t1 h1 have c1: "status (snd (check_cached_container cm_demo w_exited)) ?c = Some ''running''"
    by blast
  from t2 h2 have c2: "status (snd (create_container_from_cached_image cm_demo host_posix w_cached_image)) ?c
      = Some ''running''"
    by blast
  from t3 h3 have c3: "status (snd (create_new_container cm_demo host_posix w_empty)) ?c = Some ''running''"
    by blast
  from t1 h4 h5 have c4: "calls (snd (check_cached_container cm_demo w_exited))
          = calls w_exited @ [GetContainer (repo cm_demo), Start (repo cm_demo)]"
    by blast
  show ?thesis by (intro conjI h1 h2 h3 h4 h5 h6 c1 c2 c3 c4)
qed

section \<open>Failures inside the container lookup\<close>

text \<open>
  C2, as the spec states it: when the start of an exited container fails, the
  container is force-removed before the protocol goes on to the image lookup.
  With an exited container whose start the daemon refuses,
  \<open>check_cached_container\<close> returns \<open>None\<close> after the lookup and the start
  alone: no remove call is made and the container is still there, \<open>exited\<close>.
\<close>

theorem start_failure_counterexample:
  "containers w_exited_start_fails ''octocat_demo'' = Some ''exited''
   \<and> faults w_exited_start_fails (Start ''octocat_demo'') = Some (APIError ''cannot start container'')
   \<and> fst (check_cached_container cm_demo w_exited_start_fails) = Inr None
   \<and> calls (snd (check_cached_container cm_demo w_exited_start_fails))
       = [GetContainer ''octocat_demo'', Start ''octocat_demo'']
   \<and> Remove ''octocat_demo'' True \<notin> set (calls (snd (check_cached_container cm_demo w_exited_start_fails)))
   \<and> containers (snd (check_cached_container cm_demo w_exited_start_fails)) ''octocat_demo''
       = Some ''exited''"
  by (simp add: eval_simps)

lemma exited_start_fails:
  "faults w (GetContainer (repo cm)) = None \<Longrightarrow> containers w (repo cm) = Some ''exited'' \<Longrightarrow>
   faults w (Start (repo cm)) = Some e \<Longrightarrow>
   fst (check_cached_container cm w) = Inr None
   \<and> containers (snd (check_cached_container cm w)) = containers w
   \<and> log (snd (check_cached_container cm w))
       = log w @ [(INFO, ''Found stopped cached container: '' @ repo cm @ '', restarting...''),
                  (if is_NotFound e
                   then (INFO, ''Cached container not found: '' @ repo cm)
                   else (ERROR, ''Error checking cached container: '' @ str_exn e))]"
  by (simp add: manager_defs gateway_defs Let_def)

text \<open>
  C2, amended.  When the lookup finds the container \<open>exited\<close>, the manager
  issues one start.  If the start succeeds the handle is returned and is
  \<open>running\<close>.  If the start fails, the failure is caught and logged (as an
  error, or as \<open>Cached container not found\<close> at info level when the daemon
  answers the start with not-found) and \<open>check_cached_container\<close> returns
  \<open>None\<close>, so the caller goes on to the image lookup; the container is not
  removed.
\<close>

theorem exited_container_start:
  assumes "faults w (GetContainer (repo cm)) = None"
    and "containers w (repo cm) = Some ''exited''"
  shows "calls (snd (check_cached_container cm w))
           = calls w @ [GetContainer (repo cm), Start (repo cm)]
    \<and> (faults w (Start (repo cm)) = None \<longrightarrow>
          fst (check_cached_container cm w) = Inr (Some (Container (repo cm)))
          \<and> status (snd (check_cached_container cm w)) (Container (repo cm)) = Some ''running'')
    \<and> (\<forall>e. faults w (Start (repo cm)) = Some e \<longrightarrow>
          fst (check_cached_container cm w) = Inr None
          \<and> containers (snd (check_cached_container cm w)) = containers w
          \<and> log (snd (check_cached_container cm w))
              = log w @ [(INFO, ''Found stopped cached container: '' @ repo cm @ '', restarting...''),
                         (if is_NotFound e
                          then (INFO, ''Cached container not found: '' @ repo cm)
                          else (ERROR, ''Error checking cached container: '' @ str_exn e))])"
  using assms check_cached_container_exited_calls[of w cm]
    check_cached_container_exited_started[of w cm]
    check_cached_container_running[of cm w "Container (repo cm)"]
    exited_start_fails[of w cm]
  by blast

text \<open>The amended C2 at an exited container: a start that succeeds, one that
  the daemon refuses, and one that the daemon answers with not-found.\<close>

theorem exited_container_start_witness:
  "faults w_exited (GetContainer (repo cm_demo)) = None
   \<and> containers w_exited (repo cm_demo) = Some ''exited''
   \<and> faults w_exited (Start (repo cm_demo)) = None
   \<and> fst (check_cached_container cm_demo w_exited) = Inr (Some (Container (repo cm_demo)))
   \<and> status (snd (check_cached_container cm_demo w_exited)) (Container (repo cm_demo))
       = Some ''running''
   \<and> faults w_exited_start_fails (GetContainer (repo cm_demo)) = None
   \<and> containers w_exited_start_fails (repo cm_demo) = Some ''exited''
   \<and> faults w_exited_start_fails (Start (repo cm_demo)) = Some (APIError ''cannot start container'')
   \<and> fst (check_cached_container cm_demo w_exited_start_fails) = Inr None
   \<and> containers (snd (check_cached_container cm_demo w_exited_start_fails))
       = containers w_exited_start_fails
   \<and> log (snd (check_cached_container cm_demo w_exited_start_fails))
       = [(INFO, ''Found stopped cached container: octocat_demo, restarting...''),
          (ERROR, ''Error checking cached container: cannot start container'')]
   \<and> faults w_exited_start_notfound (GetContainer (repo cm_demo)) = None
   \<and> containers w_exited_start_notfound (repo cm_demo) = Some ''exited''
   \<and> faults w_exited_start_notfound (Start (repo cm_demo))
       = Some (NotFound ''No such container: octocat_demo'')
   \<and> fst (check_cached_container cm_demo w_exited_start_notfound) = Inr None
   \<and> log (snd (check_cached_container cm_demo w_exited_start_notfound))
       = [(INFO, ''Found stopped cached container: octocat_demo, restarting...''),
          (INFO, ''Cached container not found: octocat_demo'')]"
proof -
  have a1: "faults w_exited (GetContainer (repo cm_demo)) = None"
    by (simp add: world_defs)
  have a2: "containers w_exited (repo cm_demo) = Some ''exited''"
    by (simp add: world_defs cm_demo_simps)
  have a3: "faults w_exited (Start (repo cm_demo)) = None"
    by (simp add: world_defs)
  have b1: "faults w_exited_start_fails (GetContainer (repo cm_demo)) = None"
    by (simp add: world_defs cm_demo_simps)
  have b2: "containers w_exited_start_fails (repo cm_demo) = Some ''exited''"
    by (simp add: world_defs cm_demo_simps)
  have b3: "faults w_exited_start_fails (Start (repo cm_demo)) = Some (APIError ''cannot start container'')"
    by (simp add: world_defs cm_demo_simps)
  have n1: "faults w_exited_start_notfound (GetContainer (repo cm_demo)) = None"
    by (simp add: world_defs cm_demo_simps)
  have n2: "containers w_exited_start_notfound (repo cm_demo) = Some ''exited''"
    by (simp add: world_defs cm_demo_simps)
  have n3: "faults w_exited_start_notfound (Start (repo cm_demo))
       = Some (NotFound ''No such container: octocat_demo'')"
    by (simp add: world_defs cm_demo_simps)
  have l1: "log w_exited_start_fails = []" "log w_exited_start_notfound = []"
    by (simp_all add: world_defs)
  from exited_container_start[OF a1 a2] a3
  have c1: "fst (check_cached_container cm_demo w_exited) = Inr (Some (Container (repo cm_demo)))"
    and c2: "status (snd (check_cached_container cm_demo w_exited)) (Container (repo cm_demo))
       = Some ''running''"
    by blast+
  from exited_container_start[OF b1 b2] b3
  have d1: "fst (check_cached_container cm_demo w_exited_start_fails) = Inr None"
    and d2: "containers (snd (check_cached_container cm_demo w_exited_start_fails))
       = containers w_exited_start_fails"
    and d3': "log (snd (check_cached_container cm_demo w_exited_start_fails))
       = log w_exited_start_fails
           @ [(INFO, ''Found stopped cached container: '' @ repo cm_demo @ '', restarting...''),
              (if is_NotFound (APIError ''cannot start container'')
               then (INFO, ''Cached container not found: '' @ repo cm_demo)
               else (ERROR, ''Error checking cached container: ''
                              @ str_exn (APIError ''cannot start container'')))]"
    by blast+
  from d3' have d3: "log (snd (check_cached_container cm_demo w_exited_start_fails))
       = [(INFO, ''Found stopped cached container: octocat_demo, restarting...''),
          (ERROR, ''Error checking cached container: cannot start container'')]"
    by (simp add: l1 cm_demo_simps)
  from exited_container_start[OF n1 n2] n3
  have e1: "fst (check_cached_container cm_demo w_exited_start_notfound) = Inr None"
    and e3': "log (snd (check_cached_container cm_demo w_exited_start_notfound))
       = log w_exited_start_notfound
           @ [(INFO, ''Found stopped cached container: '' @ repo cm_demo @ '', restarting...''),
              (if is_NotFound (NotFound ''No such container: octocat_demo'')
               then (INFO, ''Cached container not found: '' @ repo cm_demo)
               else (ERROR, ''Error checking cached container: ''
                              @ str_exn (NotFound ''No such container: octocat_demo'')))]"
    by blast+
  from e3' have e3: "log (snd (check_cached_container cm_demo w_exited_start_notfound))
       = [(INFO, ''Found stopped cached container: octocat_demo, restarting...''),
          (INFO, ''Cached container not found: octocat_demo'')]"
    by (simp add: l1 cm_demo_simps)
  show ?thesis by (intro conjI a1 a2 a3 b1 b2 b3 n1 n2 n3 c1 c2 d1 d2 d3 e1 e3)
qed

text \<open>
  C3, as the spec states it: a transport error of a lookup reaches the caller
  as an error distinct from not-found.  With a daemon that refuses the
  connection, \<open>check_cached_container\<close> returns \<open>None\<close> and
  \<open>check_cached_image\<close> returns \<open>False\<close>, the same values as for a daemon that
  has no such container and no such image.
\<close>

theorem transport_error_counterexample:
  "faults w_unreachable (GetContainer ''octocat_demo'') = Some (TransportError ''Connection refused'')
   \<and> faults w_unreachable (GetImage ''featbench_octocat_demo:42'')
       = Some (TransportError ''Connection refused'')
   \<and> fst (check_cached_container cm_demo w_unreachable) = Inr None
   \<and> fst (check_cached_container cm_demo w_empty) = Inr None
   \<and> fst (check_cached_image cm_demo w_unreachable) = Inr False
   \<and> fst (check_cached_image cm_demo w_empty) = Inr False"
  by (simp add: eval_simps)

lemma check_cached_container_get_fails:
  "faults w (GetContainer (repo cm)) = Some e \<Longrightarrow>
   fst (check_cached_container cm w) = Inr None
   \<and> calls (snd (check_cached_container cm w)) = calls w @ [GetContainer (repo cm)]
   \<and> (\<not> is_NotFound e \<longrightarrow>
        log (snd (check_cached_container cm w))
          = log w @ [(ERROR, ''Error checking cached container: '' @ str_exn e)])"
  by (simp add: manager_defs gateway_defs Let_def)

lemma check_cached_image_get_fails:
  "faults w (GetImage (imageKey cm)) = Some e \<Longrightarrow>
   fst (check_cached_image cm w) = Inr False
   \<and> calls (snd (check_cached_image cm w)) = calls w @ [GetImage (imageKey cm)]
   \<and> (\<not> is_ImageNotFound e \<longrightarrow>
        log (snd (check_cached_image cm w))
          = log w @ [(ERROR, ''Error checking cached image: '' @ str_exn e)])"
  by (simp add: manager_defs gateway_defs Let_def imageKey_def)

lemma check_cached_container_never_raises:
  "fst (check_cached_container cm w) \<noteq> Inl e"
  by (auto simp: manager_defs gateway_defs Let_def split: option.splits if_splits)

lemma check_cached_image_never_raises:
  "fst (check_cached_image cm w) \<noteq> Inl e"
  by (auto simp: manager_defs gateway_defs Let_def split: option.splits if_splits)

text \<open>
  C3, amended.  A failure of the container lookup or of the image lookup,
  transport errors included, is caught inside the manager: the lookup is made
  once, \<open>check_cached_container\<close> returns \<open>None\<close> and \<open>check_cached_image\<close>
  returns \<open>False\<close>, as for not-found; a failure other than not-found is told
  apart only by its log record, written at error level.  Neither operation
  ever raises.
\<close>

theorem lookup_failure_swallowed:
  "(faults w (GetContainer (repo cm)) = Some e \<longrightarrow>
      fst (check_cached_container cm w) = Inr None
      \<and> calls (snd (check_cached_container cm w)) = calls w @ [GetContainer (repo cm)]
      \<and> (\<not> is_NotFound e \<longrightarrow>
           log (snd (check_cached_container cm w))
             = log w @ [(ERROR, ''Error checking cached container: '' @ str_exn e)]))
   \<and> (faults w (GetImage (imageKey cm)) = Some e \<longrightarrow>
      fst (check_cached_image cm w) = Inr False
      \<and> calls (snd (check_cached_image cm w)) = calls w @ [GetImage (imageKey cm)]
      \<and> (\<not> is_ImageNotFound e \<longrightarrow>
           log (snd (check_cached_image cm w))
             = log w @ [(ERROR, ''Error checking cached image: '' @ str_exn e)]))
   \<and> fst (check_cached_container cm w) \<noteq> Inl e'
   \<and> fst (check_cached_image cm w) \<noteq> Inl e'"
  using check_cached_container_get_fails[of w cm e] check_cached_image_get_fails[of w cm e]
    check_cached_container_never_raises[of cm w e'] check_cached_image_never_raises[of cm w e']
  by blast

text \<open>The amended C3 at the daemon that refuses the connection.\<close>

theorem lookup_failure_swallowed_witness:
  "faults w_unreachable (GetContainer (repo cm_demo)) = Some (TransportError ''Connection refused'')
   \<and> faults w_unreachable (GetImage (imageKey cm_demo)) = Some (TransportError ''Connection refused'')
   \<and> \<not> is_NotFound (TransportError ''Connection refused'')
   \<and> \<not> is_ImageNotFound (TransportError ''Connection refused'')
   \<and> fst (check_cached_container cm_demo w_unreachable) = Inr None
   \<and> log (snd (check_cached_container cm_demo w_unreachable))
       = log w_unreachable @ [(ERROR, ''Error checking cached container: ''
                                        @ str_exn (TransportError ''Connection refused''))]
   \<and> fst (check_cached_image cm_demo w_unreachable) = Inr False
   \<and> log (snd (check_cached_image cm_demo w_unreachable))
       = log w_unreachable @ [(ERROR, ''Error checking cached image: ''
                                        @ str_exn (TransportError ''Connection refused''))]"
proof -
  let ?e = "TransportError ''Connection refused''"
  have a1: "faults w_unreachable (GetContainer (repo cm_demo)) = Some ?e"
    by (simp add: world_defs cm_demo_simps)
  have a2: "faults w_unreachable (GetImage (imageKey cm_demo)) = Some ?e"
    by (simp add: world_defs cm_demo_simps imageKey_def)
  have a3: "\<not> is_NotFound ?e" by simp
  have a4: "\<not> is_ImageNotFound ?e" by simp
  note t = lookup_failure_swallowed[of w_unreachable cm_demo ?e ?e]
  from t a1 a3 have c1: "fst (check_cached_container cm_demo w_unreachable) = Inr None"
    and c2: "log (snd (check_cached_container cm_demo w_unreachable))
       = log w_unreachable @ [(ERROR, ''Error checking cached container: '' @ str_exn ?e)]"
    by blast+
  from t a2 a4 have c3: "fst (check_cached_image cm_demo w_unreachable) = Inr False"
    and c4: "log (snd (check_cached_image cm_demo w_unreachable))
       = log w_unreachable @ [(ERROR, ''Error checking cached image: '' @ str_exn ?e)]"
    by blast+
  show ?thesis by (intro conjI a1 a2 a3 a4 c1 c2 c3 c4)
qed

text \<open>
  C6, as the spec states it: when the removal of an abnormal container fails,
  that failure reaches the caller as a transport error.  With a \<open>dead\<close>
  container whose removal times out, \<open>check_cached_container\<close> returns
  \<open>None\<close> and raises nothing; the container is still there.
\<close>

theorem remove_failure_counterexample:
  "containers w_dead_remove_fails ''octocat_demo'' = Some ''dead''
   \<and> faults w_dead_remove_fails (Remove ''octocat_demo'' True)
       = Some (TransportError ''Read timed out'')
   \<and> fst (check_cached_container cm_demo w_dead_remove_fails) = Inr None
   \<and> fst (check_cached_container cm_demo w_dead_remove_fails)
       \<noteq> Inl (TransportError ''Read timed out'')
   \<and> calls (snd (check_cached_container cm_demo w_dead_remove_fails))
       = [GetContainer ''octocat_demo'', Remove ''octocat_demo'' True]
   \<and> containers (snd (check_cached_container cm_demo w_dead_remove_fails)) ''octocat_demo''
       = Some ''dead''"
  by (simp add: eval_simps)

lemma abnormal_calls:
  "faults w (GetContainer (repo cm)) = None \<Longrightarrow> containers w (repo cm) = Some s \<Longrightarrow>
   s \<noteq> ''running'' \<Longrightarrow> s \<noteq> ''exited'' \<Longrightarrow>
   calls (snd (check_cached_container cm w))
     = calls w @ [GetContainer (repo cm), Remove (repo cm) True]
   \<and> fst (check_cached_container cm w) = Inr None"
  by (simp add: manager_defs gateway_defs Let_def split: option.split)

lemma abnormal_removed:
  "faults w (GetContainer (repo cm)) = None \<Longrightarrow> containers w (repo cm) = Some s \<Longrightarrow>
   s \<noteq> ''running'' \<Longrightarrow> s \<noteq> ''exited'' \<Longrightarrow> faults w (Remove (repo cm) True) = None \<Longrightarrow>
   containers (snd (check_cached_container cm w)) = (containers w)(repo cm := None)"
  by (simp add: manager_defs gateway_defs Let_def)

lemma abnormal_remove_fails:
  "faults w (GetContainer (repo cm)) = None \<Longrightarrow> containers w (repo cm) = Some s \<Longrightarrow>
   s \<noteq> ''running'' \<Longrightarrow> s \<noteq> ''exited'' \<Longrightarrow> faults w (Remove (repo cm) True) = Some e \<Longrightarrow>
   containers (snd (check_cached_container cm w)) = containers w
   \<and> log (snd (check_cached_container cm w))
       = log w @ [(WARNING, ''Container '' @ repo cm @ '' status abnormal: '' @ s
                              @ '', will recreate''),
                  (if is_NotFound e
                   then (INFO, ''Cached container not found: '' @ repo cm)
                   else (ERROR, ''Error checking cached container: '' @ str_exn e))]"
  by (simp add: manager_defs gateway_defs Let_def)

text \<open>
  C6, amended.  When the lookup finds the container in a status other than
  \<open>running\<close> and \<open>exited\<close>, the manager issues exactly one forced remove and
  \<open>check_cached_container\<close> returns \<open>None\<close>, the value of not-found, so the
  caller goes on to the image lookup.  When the removal succeeds the container
  is gone; when it fails, the failure is caught and logged (as an error, or
  as \<open>Cached container not found\<close> at info level when the daemon answers the
  removal with not-found), and nothing is raised.
\<close>

theorem abnormal_container_removed:
  assumes "faults w (GetContainer (repo cm)) = None"
    and "containers w (repo cm) = Some s"
    and "s \<noteq> ''running''" and "s \<noteq> ''exited''"
  shows "calls (snd (check_cached_container cm w))
           = calls w @ [GetContainer (repo cm), Remove (repo cm) True]
    \<and> fst (check_cached_container cm w) = Inr None
    \<and> (faults w (Remove (repo cm) True) = None \<longrightarrow>
          containers (snd (check_cached_container cm w)) = (containers w)(repo cm := None))
    \<and> (\<forall>e. faults w (Remove (repo cm) True) = Some e \<longrightarrow>
          containers (snd (check_cached_container cm w)) = containers w
          \<and> log (snd (check_cached_container cm w))
              = log w @ [(WARNING, ''Container '' @ repo cm @ '' status abnormal: '' @ s
                                     @ '', will recreate''),
                         (if is_NotFound e
                          then (INFO, ''Cached container not found: '' @ repo cm)
                          else (ERROR, ''Error checking cached container: '' @ str_exn e))])"
  using abnormal_calls[OF assms] abnormal_removed[OF assms] abnormal_remove_fails[OF assms]
  by blast

text \<open>The amended C6 at a \<open>dead\<close> container: a removal that succeeds, one that
  times out, and one that the daemon answers with not-found.\<close>

theorem abnormal_container_removed_witness:
  "faults w_dead (GetContainer (repo cm_demo)) = None
   \<and> containers w_dead (repo cm_demo) = Some ''dead''
   \<and> ''dead'' \<noteq> ''running'' \<and> ''dead'' \<noteq> ''exited''
   \<and> faults w_dead (Remove (repo cm_demo) True) = None
   \<and> calls (snd (check_cached_container cm_demo w_dead))
       = calls w_dead @ [GetContainer (repo cm_demo), Remove (repo cm_demo) True]
   \<and> fst (check_cached_container cm_demo w_dead) = Inr None
   \<and> containers (snd (check_cached_container cm_demo w_dead))
       = (containers w_dead)(repo cm_demo := None)
   \<and> faults w_dead_remove_fails (GetContainer (repo cm_demo)) = None
   \<and> containers w_dead_remove_fails (repo cm_demo) = Some ''dead''
   \<and> faults w_dead_remove_fails (Remove (repo cm_demo) True)
       = Some (TransportError ''Read timed out'')
   \<and> fst (check_cached_container cm_demo w_dead_remove_fails) = Inr None
   \<and> containers (snd (check_cached_container cm_demo w_dead_remove_fails))
       = containers w_dead_remove_fails
   \<and> log (snd (check_cached_container cm_demo w_dead_remove_fails))
       = [(WARNING, ''Container octocat_demo status abnormal: dead, will recreate''),
          (ERROR, ''Error checking cached container: Read timed out'')]
   \<and> faults w_dead_remove_notfound (GetContainer (repo cm_demo)) = None
   \<and> containers w_dead_remove_notfound (repo cm_demo) = Some ''dead''
   \<and> faults w_dead_remove_notfound (Remove (repo cm_demo) True)
       = Some (NotFound ''No such container: octocat_demo'')
   \<and> fst (check_cached_container cm_demo w_dead_remove_notfound) = Inr None
   \<and> log (snd (check_cached_container cm_demo w_dead_remove_notfound))
       = [(WARNING, ''Container octocat_demo status abnormal: dead, will recreate''),
          (INFO, ''Cached container not found: octocat_demo'')]"
proof -
  let ?e = "TransportError ''Read timed out''"
  let ?n = "NotFound ''No such container: octocat_demo''"
  have a1: "faults w_dead (GetContainer (repo cm_demo)) = None"
    by (simp add: world_defs)
  have a2: "containers w_dead (repo cm_demo) = Some ''dead''"
    by (simp add: world_defs cm_demo_simps)
  have a3: "''dead'' \<noteq> ''running''" by simp
  have a4: "''dead'' \<noteq> ''exited''" by simp
  have a5: "faults w_dead (Remove (repo cm_demo) True) = None"
    by (simp add: world_defs)
  have b1: "faults w_dead_remove_fails (GetContainer (repo cm_demo)) = None"
    by (simp add: world_defs cm_demo_simps)
  have b2: "containers w_dead_remove_fails (repo cm_demo) = Some ''dead''"
    by (simp add: world_defs cm_demo_simps)
  have b5: "faults w_dead_remove_fails (Remove (repo cm_demo) True) = Some ?e"
    by (simp add: world_defs cm_demo_simps)
  have n1: "faults w_dead_remove_notfound (GetContainer (repo cm_demo)) = None"
    by (simp add: world_defs cm_demo_simps)
  have n2: "containers w_dead_remove_notfound (repo cm_demo) = Some ''dead''"
    by (simp add: world_defs cm_demo_simps)
  have n5: "faults w_dead_remove_notfound (Remove (repo cm_demo) True) = Some ?n"
    by (simp add: world_defs cm_demo_simps)
  have l1: "log w_dead_remove_fails = []" "log w_dead_remove_notfound = []"
    by (simp_all add: world_defs)
  from abnormal_container_removed[OF a1 a2 a3 a4] a5
  have c1: "calls (snd (check_cached_container cm_demo w_dead))
       = calls w_dead @ [GetContainer (repo cm_demo), Remove (repo cm_demo) True]"
    and c2: "fst (check_cached_container cm_demo w_dead) = Inr None"
    and c3: "containers (snd (check_cached_container cm_demo w_dead))
       = (containers w_dead)(repo cm_demo := None)"
    by blast+
  from abnormal_container_removed[OF b1 b2 a3 a4] b5
  have d1: "fst (check_cached_container cm_demo w_dead_remove_fails) = Inr None"
    and d2: "containers (snd (check_cached_container cm_demo w_dead_remove_fails))
       = containers w_dead_remove_fails"
    and d3': "log (snd (check_cached_container cm_demo w_dead_remove_fails))
       = log w_dead_remove_fails
           @ [(WARNING, ''Container '' @ repo cm_demo @ '' status abnormal: '' @ ''dead''
                          @ '', will recreate''),
              (if is_NotFound ?e
               then (INFO, ''Cached container not found: '' @ repo cm_demo)
               else (ERROR, ''Error checking cached container: '' @ str_exn ?e))]"
    by blast+
  from d3' have d3: "log (snd (check_cached_container cm_demo w_dead_remove_fails))
       = [(WARNING, ''Container octocat_demo status abnormal: dead, will recreate''),
          (ERROR, ''Error checking cached container: Read timed out'')]"
    by (simp add: l1 cm_demo_simps)
  from abnormal_container_removed[OF n1 n2 a3 a4] n5
  have e1: "fst (check_cached_container cm_demo w_dead_remove_notfound) = Inr None"
    and e3': "log (snd (check_cached_container cm_demo w_dead_remove_notfound))
       = log w_dead_remove_notfound
           @ [(WARNING, ''Container '' @ repo cm_demo @ '' status abnormal: '' @ ''dead''
                          @ '', will recreate''),
              (if is_NotFound ?n
               then (INFO, ''Cached container not found: '' @ repo cm_demo)
               else (ERROR, ''Error checking cached container: '' @ str_exn ?n))]"
    by blast+
  from e3' have e3: "log (snd (check_cached_container cm_demo w_dead_remove_notfound))
       = [(WARNING, ''Container octocat_demo status abnormal: dead, will recreate''),
          (INFO, ''Cached container not found: octocat_demo'')]"
    by (simp add: l1 cm_demo_simps)
  show ?thesis
    by (intro conjI a1 a2 a3 a4 a5 b1 b2 b5 n1 n2 n5 c1 c2 c3 d1 d2 d3 e1 e3)
qed

section \<open>Checkpoint\<close>

text \<open>
  C7, as the spec states it: a checkpoint onto an image key that is already
  taken ends in a non-fatal \<open>already cached\<close> result.  With a running
  container and an image at \<open>featbench_octocat_demo:42\<close>,
  \<open>save_container_as_image\<close> makes the one commit call and never asks for the
  key.  When the daemon accepts the commit, the result is the id of the new
  image, the same as when no image was at the key, and the key now names the
  new image.  When the daemon refuses the commit, \<open>save_container_as_image\<close>
  raises \<open>CacheError\<close>.
\<close>

theorem existing_image_counterexample:
  "images w_running_cached ''featbench_octocat_demo:42'' = Some ''sha256:feedfacecafe0001''
   \<and> fst (save_container_as_image cm_demo (Container ''octocat_demo'') w_running_cached)
       = Inr ''sha256:0123456789abcdef''
   \<and> fst (save_container_as_image cm_demo (Container ''octocat_demo'') w_running)
       = Inr ''sha256:0123456789abcdef''
   \<and> calls (snd (save_container_as_image cm_demo (Container ''octocat_demo'') w_running_cached))
       = [Commit ''octocat_demo'' ''featbench_octocat_demo'' ''42'']
   \<and> images (snd (save_container_as_image cm_demo (Container ''octocat_demo'') w_running_cached))
        ''featbench_octocat_demo:42'' = Some ''sha256:0123456789abcdef''
   \<and> images w_commit_conflict ''featbench_octocat_demo:42'' = Some ''sha256:feedfacecafe0001''
   \<and> fst (save_container_as_image cm_demo (Container ''octocat_demo'') w_commit_conflict)
       = Inl (CacheError ''Failed to save container image: conflict: image already exists'')"
  by (simp add: eval_simps)

lemma save_calls:
  "calls (snd (save_container_as_image cm c w))
     = calls w @ [Commit (cname c) (''featbench_'' @ repo_lower cm) (repo_id cm)]"
  by (simp add: manager_defs gateway_defs Let_def split: option.split)

lemma save_containers:
  "containers (snd (save_container_as_image cm c w)) = containers w"
  by (simp add: manager_defs gateway_defs Let_def split: option.split)

lemma save_outcomes:
  "(\<exists>i. fst (save_container_as_image cm c w) = Inr i)
   \<or> (\<exists>m. fst (save_container_as_image cm c w)
            = Inl (CacheError (''Failed to save container image: '' @ m)))"
  by (simp add: manager_defs gateway_defs Let_def split: option.split)

lemma save_images_irrelevant:
  "fst (save_container_as_image cm c (w\<lparr>images := imgs\<rparr>)) = fst (save_container_as_image cm c w)"
  by (simp add: manager_defs gateway_defs Let_def split: option.split)

lemma save_commit_fault:
  "faults w (Commit (cname c) (''featbench_'' @ repo_lower cm) (repo_id cm)) = Some e \<Longrightarrow>
   fst (save_container_as_image cm c w)
     = Inl (CacheError (''Failed to save container image: '' @ str_exn e))
   \<and> last (log (snd (save_container_as_image cm c w)))
       = (ERROR, ''Failed to save container image: '' @ str_exn e)"
  by (simp add: manager_defs gateway_defs Let_def)

text \<open>
  C7, amended.  A checkpoint never looks up the target key and has no
  \<open>already cached\<close> outcome.  It issues exactly one commit, whatever its
  outcome (nothing is retried), and leaves the containers as they were.  It
  either returns the id of the new image or raises \<open>CacheError\<close>, and which
  of the two does not depend on the images the daemon holds; an error with
  which the daemon answers the commit, for a pre-existing image or for any
  other reason, is raised as \<open>CacheError\<close>.
\<close>

theorem checkpoint_failure_fatal:
  "calls (snd (save_container_as_image cm c w))
     = calls w @ [Commit (cname c) (''featbench_'' @ repo_lower cm) (repo_id cm)]
   \<and> containers (snd (save_container_as_image cm c w)) = containers w
   \<and> ((\<exists>i. fst (save_container_as_image cm c w) = Inr i)
       \<or> (\<exists>m. fst (save_container_as_image cm c w)
                = Inl (CacheError (''Failed to save container image: '' @ m))))
   \<and> fst (save_container_as_image cm c (w\<lparr>images := imgs\<rparr>))
       = fst (save_container_as_image cm c w)
   \<and> (faults w (Commit (cname c) (''featbench_'' @ repo_lower cm) (repo_id cm)) = Some e \<longrightarrow>
        fst (save_container_as_image cm c w)
          = Inl (CacheError (''Failed to save container image: '' @ str_exn e)))"
  using save_calls[of cm c w] save_containers[of cm c w] save_outcomes[of cm c w]
    save_images_irrelevant[of cm c imgs w] save_commit_fault[of w c cm e]
  by blast

text \<open>The amended C7 at a running container whose image key is taken and
  whose commit the daemon refuses.\<close>

theorem checkpoint_failure_fatal_witness:
  "faults w_commit_conflict
       (Commit (cname (Container ''octocat_demo'')) (''featbench_'' @ repo_lower cm_demo)
          (repo_id cm_demo))
     = Some (APIError ''conflict: image already exists'')
   \<and> fst (save_container_as_image cm_demo (Container ''octocat_demo'') w_commit_conflict)
       = Inl (CacheError (''Failed to save container image: ''
                            @ str_exn (APIError ''conflict: image already exists'')))
   \<and> calls (snd (save_container_as_image cm_demo (Container ''octocat_demo'') w_commit_conflict))
       = calls w_commit_conflict
           @ [Commit (cname (Container ''octocat_demo'')) (''featbench_'' @ repo_lower cm_demo)
                (repo_id cm_demo)]
   \<and> containers (snd (save_container_as_image cm_demo (Container ''octocat_demo'') w_commit_conflict))
       = containers w_commit_conflict"
proof -
  let ?c = "Container ''octocat_demo''"
  let ?e = "APIError ''conflict: image already exists''"
  have a: "faults w_commit_conflict
       (Commit (cname ?c) (''featbench_'' @ repo_lower cm_demo) (repo_id cm_demo)) = Some ?e"
    by (simp add: world_defs cm_demo_simps)
  note t = checkpoint_failure_fatal[of cm_demo ?c w_commit_conflict no_entries ?e]
  from t a have c1: "fst (save_container_as_image cm_demo ?c w_commit_conflict)
       = Inl (CacheError (''Failed to save container image: '' @ str_exn ?e))"
    by blast
  from t have c2: "calls (snd (save_container_as_image cm_demo ?c w_commit_conflict))
       = calls w_commit_conflict
           @ [Commit (cname ?c) (''featbench_'' @ repo_lower cm_demo) (repo_id cm_demo)]"
    and c3: "containers (snd (save_container_as_image cm_demo ?c w_commit_conflict))
       = containers w_commit_conflict"
    by blast+
  show ?thesis by (intro conjI a c1 c2 c3)
qed

text \<open>
  C9, as the spec states it: a checkpoint failure other than not-found reaches
  the caller as the original error, with the repository and the task id.  With
  a commit that times out, \<open>save_container_as_image\<close> raises \<open>CacheError\<close>
  with the text \<open>Failed to save container image: Read timed out\<close>, not the
  transport error, and the text names neither \<open>octocat_demo\<close> nor \<open>42\<close>.
\<close>

theorem checkpoint_error_counterexample:
  "faults w_commit_timeout (Commit ''octocat_demo'' ''featbench_octocat_demo'' ''42'')
     = Some (TransportError ''Read timed out'')
   \<and> fst (save_container_as_image cm_demo (Container ''octocat_demo'') w_commit_timeout)
       = Inl (CacheError ''Failed to save container image: Read timed out'')
   \<and> fst (save_container_as_image cm_demo (Container ''octocat_demo'') w_commit_timeout)
       \<noteq> Inl (TransportError ''Read timed out'')"
  by (simp add: eval_simps)

lemma save_container_missing:
  "faults w (Commit (cname c) (''featbench_'' @ repo_lower cm) (repo_id cm)) = None \<Longrightarrow>
   containers w (cname c) = None \<Longrightarrow>
   fst (save_container_as_image cm c w)
     = Inl (CacheError (''Failed to save container image: ''
                          @ str_exn (NotFound (''No such container: '' @ cname c))))"
  by (simp add: manager_defs gateway_defs Let_def)

text \<open>
  C9, amended.  Every failure of a checkpoint, not-found included, is replaced
  by a \<open>CacheError\<close> whose text is \<open>Failed to save container image: \<close>
  followed by the text of the original error, and the same text is logged as
  an error.  The text names the operation; the repository and the task id are
  in it only when the original error's text has them.
\<close>

theorem checkpoint_error_translated:
  "(faults w (Commit (cname c) (''featbench_'' @ repo_lower cm) (repo_id cm)) = Some e \<longrightarrow>
      fst (save_container_as_image cm c w)
        = Inl (CacheError (''Failed to save container image: '' @ str_exn e))
      \<and> last (log (snd (save_container_as_image cm c w)))
          = (ERROR, ''Failed to save container image: '' @ str_exn e))
   \<and> (faults w (Commit (cname c) (''featbench_'' @ repo_lower cm) (repo_id cm)) = None
       \<and> containers w (cname c) = None \<longrightarrow>
      fst (save_container_as_image cm c w)
        = Inl (CacheError (''Failed to save container image: ''
                             @ str_exn (NotFound (''No such container: '' @ cname c)))))
   \<and> (\<forall>x. fst (save_container_as_image cm c w) = Inl x \<longrightarrow>
          (\<exists>m. x = CacheError (''Failed to save container image: '' @ m)))"
  using save_commit_fault[of w c cm e] save_container_missing[of w c cm] save_outcomes[of cm c w]
  by auto

text \<open>The amended C9 at a commit that times out and at a container that is
  gone.\<close>

theorem checkpoint_error_translated_witness:
  "faults w_commit_timeout
       (Commit (cname (Container ''octocat_demo'')) (''featbench_'' @ repo_lower cm_demo)
          (repo_id cm_demo))
     = Some (TransportError ''Read timed out'')
   \<and> fst (save_container_as_image cm_demo (Container ''octocat_demo'') w_commit_timeout)
       = Inl (CacheError (''Failed to save container image: ''
                            @ str_exn (TransportError ''Read timed out'')))
   \<and> faults w_empty
        (Commit (cname (Container ''octocat_demo'')) (''featbench_'' @ repo_lower cm_demo)
           (repo_id cm_demo)) = None
   \<and> containers w_empty (cname (Container ''octocat_demo'')) = None
   \<and> fst (save_container_as_image cm_demo (Container ''octocat_demo'') w_empty)
       = Inl (CacheError (''Failed to save container image: ''
                @ str_exn (NotFound (''No such container: '' @ cname (Container ''octocat_demo'')))))
   \<and> (\<exists>m. CacheError (''Failed to save container image: ''
                            @ str_exn (TransportError ''Read timed out''))
            = CacheError (''Failed to save container image: '' @ m))"
proof -
  let ?c = "Container ''octocat_demo''"
  let ?e = "TransportError ''Read timed out''"
  have a: "faults w_commit_timeout
       (Commit (cname ?c) (''featbench_'' @ repo_lower cm_demo) (repo_id cm_demo)) = Some ?e"
    by (simp add: world_defs cm_demo_simps)
  have b1: "faults w_empty
        (Commit (cname ?c) (''featbench_'' @ repo_lower cm_demo) (repo_id cm_demo)) = None"
    by (simp add: world_defs)
  have b2: "containers w_empty (cname ?c) = None"
    by (simp add: world_defs)
  note t1 = checkpoint_error_translated[of w_commit_timeout ?c cm_demo ?e]
  note t2 = checkpoint_error_translated[of w_empty ?c cm_demo ?e]
  from t1 a have c1: "fst (save_container_as_image cm_demo ?c w_commit_timeout)
       = Inl (CacheError (''Failed to save container image: '' @ str_exn ?e))"
    by blast
  from t2 b1 b2 have c2: "fst (save_container_as_image cm_demo ?c w_empty)
       = Inl (CacheError (''Failed to save container image: ''
                @ str_exn (NotFound (''No such container: '' @ cname ?c))))"
    by blast
  from t1 c1 have c3: "\<exists>m. CacheError (''Failed to save container image: '' @ str_exn ?e)
            = CacheError (''Failed to save container image: '' @ m)"
    by blast
  show ?thesis by (intro conjI a b1 b2 c1 c2 c3)
qed

section \<open>Round trip\<close>

lemma save_success_image:
  "fst (save_container_as_image cm c w) = Inr i \<Longrightarrow>
   images (snd (save_container_as_image cm c w)) (imageKey cm) = Some i"
  by (auto simp: manager_defs gateway_defs Let_def imageKey_def split: option.splits if_splits)

lemma check_cached_image_found:
  "images w (imageKey cm) = Some i \<Longrightarrow> faults w (GetImage (imageKey cm)) = None \<Longrightarrow>
   fst (check_cached_image cm w) = Inr True
   \<and> images (snd (check_cached_image cm w)) = images w
   \<and> containers (snd (check_cached_image cm w)) = containers w
   \<and> faults (snd (check_cached_image cm w)) = faults w"
  by (simp add: manager_defs gateway_defs Let_def imageKey_def)

lemma check_cached_container_absent:
  "containers w (repo cm) = None \<Longrightarrow>
   fst (check_cached_container cm w) = Inr None
   \<and> calls (snd (check_cached_container cm w)) = calls w @ [GetContainer (repo cm)]
   \<and> images (snd (check_cached_container cm w)) = images w
   \<and> containers (snd (check_cached_container cm w)) = containers w
   \<and> faults (snd (check_cached_container cm w)) = faults w"
  by (simp add: manager_defs gateway_defs Let_def split: option.split)

lemma create_from_cached_calls:
  "calls (snd (create_container_from_cached_image cm h w))
     = calls w @ [Run (imageKey cm) (fst (common_container_config cm h w))]"
  by (simp add: manager_defs gateway_defs Let_def imageKey_def split: option.split)

lemma create_from_cached_ok:
  "images w (imageKey cm) = Some i \<Longrightarrow> containers w (repo cm) = None \<Longrightarrow>
   faults w (Run (imageKey cm) (fst (common_container_config cm h w))) = None \<Longrightarrow>
   fst (create_container_from_cached_image cm h w) = Inr (Container (repo cm))"
  by (cases "os_name h = ''posix''")
     (simp_all add: manager_defs gateway_defs Let_def imageKey_def)

lemma common_container_config_fst:
  "fst (common_container_config cm h w) = fst (common_container_config cm h w')"
  by (simp add: common_container_config_def Let_def)

lemma acquire_image_branch:
  assumes "images w (imageKey cm) = Some i" and "faults w (GetImage (imageKey cm)) = None"
    and "containers w (repo cm) = None"
  shows "acquireEnvironment cm h w
           = create_container_from_cached_image cm h
               (snd (check_cached_image cm (snd (check_cached_container cm w))))"
proof -
  let ?w1 = "snd (check_cached_container cm w)"
  from check_cached_container_absent[OF assms(3)]
  have c: "fst (check_cached_container cm w) = Inr None" "images ?w1 = images w"
    "faults ?w1 = faults w"
    by simp_all
  from check_cached_image_found[of ?w1 cm i] c assms
  have d: "fst (check_cached_image cm ?w1) = Inr True" by simp
  show ?thesis
    using c(1) d by (simp add: acquireEnvironment_def case_prod_beta)
qed

text \<open>Whatever branch an acquisition takes, a handle it returns is
  \<open>running\<close>.\<close>

lemma acquireEnvironment_running:
  assumes "fst (acquireEnvironment cm h w) = Inr c"
  shows "status (snd (acquireEnvironment cm h w)) c = Some ''running''"
proof (cases "fst (check_cached_container cm w)")
  case (Inl e)
  with assms show ?thesis
    by (simp add: acquireEnvironment_def case_prod_beta)
next
  case (Inr r)
  show ?thesis
  proof (cases r)
    case (Some c')
    with Inr assms have "c' = c"
      by (simp add: acquireEnvironment_def case_prod_beta)
    with Inr Some check_cached_container_running[of cm w c] show ?thesis
      by (simp add: acquireEnvironment_def case_prod_beta)
  next
    case None
    let ?w1 = "snd (check_cached_container cm w)"
    show ?thesis
    proof (cases "fst (check_cached_image cm ?w1)")
      case (Inl e)
      with Inr None assms show ?thesis
        by (simp add: acquireEnvironment_def case_prod_beta)
    next
      case b: (Inr found)
      let ?w2 = "snd (check_cached_image cm ?w1)"
      show ?thesis
      proof (cases found)
        case True
        with Inr None b have eq: "acquireEnvironment cm h w = create_container_from_cached_image cm h ?w2"
          by (simp add: acquireEnvironment_def case_prod_beta)
        with assms create_container_from_cached_image_running[of cm h ?w2 c] show ?thesis
          by simp
      next
        case False
        with Inr None b have eq: "acquireEnvironment cm h w = create_new_container cm h ?w2"
          by (simp add: acquireEnvironment_def case_prod_beta)
        with assms create_new_container_running[of cm h ?w2 c] show ?thesis
          by simp
      qed
    qed
  qed
qed

text \<open>
  C5, as the spec states it: after a successful checkpoint the image lookup
  finds the image, and a reacquisition never calls the builder.  Checkpoint
  the running container of the demo repository and remove the container; the
  image is in the cache.  When the daemon then refuses the connection of the
  image lookup, \<open>check_cached_image\<close> returns \<open>False\<close> and the acquisition
  calls the builder.
\<close>

theorem checkpoint_rebuild_counterexample:
  "fst (save_container_as_image cm_demo (Container ''octocat_demo'') w_running)
     = Inr ''sha256:0123456789abcdef''
   \<and> images w_reacquire_unreachable ''featbench_octocat_demo:42'' = Some ''sha256:0123456789abcdef''
   \<and> containers w_reacquire_unreachable ''octocat_demo'' = None
   \<and> fst (check_cached_image cm_demo w_reacquire_unreachable) = Inr False
   \<and> Build ''octocat_demo''
        \<in> set (calls (snd (acquireEnvironment cm_demo host_posix w_reacquire_unreachable)))"
  by (simp add: w_reacquire_unreachable_def w_reacquire_def w_after_checkpoint_def
        acquireEnvironment_def eval_simps)

text \<open>
  C5, amended.  After a successful checkpoint, in any later world that still
  has the images of the checkpoint, whose daemon answers the image lookup
  without an error, and where the live container has been removed:
  \<open>check_cached_image\<close> of the same manager returns \<open>True\<close>, and an
  acquisition makes the container lookup, the image lookup and one run from
  the image key, with no call of the builder; when the run is answered it
  returns a handle that is \<open>running\<close>.
\<close>

theorem checkpoint_then_reacquire:
  assumes "fst (save_container_as_image cm c w) = Inr i"
    and "images w' = images (snd (save_container_as_image cm c w))"
    and "faults w' (GetImage (imageKey cm)) = None"
    and "containers w' (repo cm) = None"
  shows "fst (check_cached_image cm w') = Inr True
    \<and> calls (snd (acquireEnvironment cm h w'))
        = calls w' @ [GetContainer (repo cm), GetImage (imageKey cm),
                      Run (imageKey cm) (fst (common_container_config cm h w'))]
    \<and> (\<forall>r. Build r \<notin> set (drop (length (calls w')) (calls (snd (acquireEnvironment cm h w')))))
    \<and> (faults w' (Run (imageKey cm) (fst (common_container_config cm h w'))) = None \<longrightarrow>
         fst (acquireEnvironment cm h w') = Inr (Container (repo cm))
         \<and> status (snd (acquireEnvironment cm h w')) (Container (repo cm)) = Some ''running'')"
proof -
  let ?w1 = "snd (check_cached_container cm w')"
  let ?w2 = "snd (check_cached_image cm ?w1)"
  let ?cfg = "fst (common_container_config cm h w')"
  from save_success_image[OF assms(1)] assms(2)
  have img: "images w' (imageKey cm) = Some i" by simp
  from check_cached_image_found[OF img assms(3)]
  have found: "fst (check_cached_image cm w') = Inr True" by simp
  have acq: "acquireEnvironment cm h w' = create_container_from_cached_image cm h ?w2"
    by (rule acquire_image_branch[OF img assms(3) assms(4)])
  from check_cached_container_absent[OF assms(4)]
  have w1: "calls ?w1 = calls w' @ [GetContainer (repo cm)]" "images ?w1 = images w'"
    "containers ?w1 = containers w'" "faults ?w1 = faults w'"
    by simp_all
  from check_cached_image_found[of ?w1 cm i] w1 img assms(3)
  have w2: "images ?w2 = images w'" "containers ?w2 = containers w'" "faults ?w2 = faults w'"
    by simp_all
  have w2c: "calls ?w2 = calls w' @ [GetContainer (repo cm), GetImage (imageKey cm)]"
    using check_cached_image_calls[of cm ?w1] w1(1) by (simp add: imageKey_def)
  have cfg: "fst (common_container_config cm h ?w2) = ?cfg"
    by (rule common_container_config_fst)
  have calls: "calls (snd (acquireEnvironment cm h w'))
        = calls w' @ [GetContainer (repo cm), GetImage (imageKey cm), Run (imageKey cm) ?cfg]"
    by (simp add: acq create_from_cached_calls w2c cfg)
  have nobuild: "\<forall>r. Build r \<notin> set (drop (length (calls w')) (calls (snd (acquireEnvironment cm h w'))))"
    by (simp add: calls)
  have run: "faults w' (Run (imageKey cm) ?cfg) = None \<longrightarrow>
         fst (acquireEnvironment cm h w') = Inr (Container (repo cm))
         \<and> status (snd (acquireEnvironment cm h w')) (Container (repo cm)) = Some ''running''"
  proof
    assume nf: "faults w' (Run (imageKey cm) ?cfg) = None"
    have r: "fst (create_container_from_cached_image cm h ?w2) = Inr (Container (repo cm))"
      using create_from_cached_ok[of ?w2 cm i h] w2 img assms(4) nf cfg by simp
    from create_container_from_cached_image_running[OF r] r
    show "fst (acquireEnvironment cm h w') = Inr (Container (repo cm))
         \<and> status (snd (acquireEnvironment cm h w')) (Container (repo cm)) = Some ''running''"
      by (simp add: acq)
  qed
  show ?thesis using found calls nobuild run by blast
qed

text \<open>The amended C5 at the demo repository: checkpoint of the running
  container, forced removal of that container, acquisition.\<close>

theorem checkpoint_then_reacquire_witness:
  "fst (save_container_as_image cm_demo (Container ''octocat_demo'') w_running)
     = Inr ''sha256:0123456789abcdef''
   \<and> images w_reacquire
       = images (snd (save_container_as_image cm_demo (Container ''octocat_demo'') w_running))
   \<and> faults w_reacquire (GetImage (imageKey cm_demo)) = None
   \<and> containers w_reacquire (repo cm_demo) = None
   \<and> faults w_reacquire (Run (imageKey cm_demo) (fst (common_container_config cm_demo host_posix w_reacquire)))
       = None
   \<and> fst (check_cached_image cm_demo w_reacquire) = Inr True
   \<and> calls (snd (acquireEnvironment cm_demo host_posix w_reacquire))
       = calls w_reacquire @ [GetContainer (repo cm_demo), GetImage (imageKey cm_demo),
            Run (imageKey cm_demo) (fst (common_container_config cm_demo host_posix w_reacquire))]
   \<and> fst (acquireEnvironment cm_demo host_posix w_reacquire) = Inr (Container (repo cm_demo))
   \<and> status (snd (acquireEnvironment cm_demo host_posix w_reacquire)) (Container (repo cm_demo))
       = Some ''running''"
proof -
  let ?c = "Container ''octocat_demo''"
  have h1: "fst (save_container_as_image cm_demo ?c w_running) = Inr ''sha256:0123456789abcdef''"
    by (simp add: eval_simps)
  have h2: "images w_reacquire = images (snd (save_container_as_image cm_demo ?c w_running))"
    by (simp add: w_reacquire_def w_after_checkpoint_def eval_simps)
  have h3: "faults w_reacquire (GetImage (imageKey cm_demo)) = None"
    by (simp add: w_reacquire_def w_after_checkpoint_def eval_simps)
  have h4: "containers w_reacquire (repo cm_demo) = None"
    by (simp add: w_reacquire_def w_after_checkpoint_def eval_simps)
  have h5: "faults w_reacquire
      (Run (imageKey cm_demo) (fst (common_container_config cm_demo host_posix w_reacquire))) = None"
    by (simp add: w_reacquire_def w_after_checkpoint_def eval_simps)
  note t = checkpoint_then_reacquire[OF h1 h2 h3 h4, of host_posix]
  from t have c1: "fst (check_cached_image cm_demo w_reacquire) = Inr True"
    and c2: "calls (snd (acquireEnvironment cm_demo host_posix w_reacquire))
       = calls w_reacquire @ [GetContainer (repo cm_demo), GetImage (imageKey cm_demo),
            Run (imageKey cm_demo) (fst (common_container_config cm_demo host_posix w_reacquire))]"
    by blast+
  from t h5 have c3: "fst (acquireEnvironment cm_demo host_posix w_reacquire) = Inr (Container (repo cm_demo))"
    and c4: "status (snd (acquireEnvironment cm_demo host_posix w_reacquire)) (Container (repo cm_demo))
       = Some ''running''"
    by blast+
  show ?thesis by (intro conjI h1 h2 h3 h4 h5 c1 c2 c3 c4)
qed

section \<open>Agreement on the keys\<close>

lemma check_cached_container_first_call:
  "take (Suc (length (calls w))) (calls (snd (check_cached_container cm w)))
     = calls w @ [GetContainer (repo cm)]"
  by (simp add: manager_defs gateway_defs Let_def split: option.split)

lemma common_container_config_name:
  "name (fst (common_container_config cm h w)) = repo cm"
  by (simp add: common_container_config_def Let_def)

lemma create_new_container_calls:
  "calls (snd (create_new_container cm h w))
     = calls w @ (if faults w (Build (repo cm)) = None
                  then [Build (repo cm),
                        Run (built_ref w (repo cm)) (fst (common_container_config cm h w))]
                  else [Build (repo cm)])"
  by (simp add: manager_defs gateway_defs Let_def split: option.split)

text \<open>
  C10.  All operations of one manager use the same keys.  The container lookup
  asks for \<open>repo\<close>, which is the name in \<open>common_container_config\<close> and so
  the name of the container run from the cached image and from a fresh build.
  The image lookup and the run from the cached image use
  \<open>featbench_{repo_lower}:{repo_id}\<close>; the checkpoint commits to repository
  \<open>featbench_{repo_lower}\<close> with tag \<open>repo_id\<close> and, when it succeeds, the image
  is stored under that same key.  \<open>repo_lower\<close> is the lower-cased \<open>repo\<close> and
  \<open>repo_id\<close> is the task id given to the constructor.
\<close>

theorem keys_agree:
  "take (Suc (length (calls w))) (calls (snd (check_cached_container cm w)))
     = calls w @ [GetContainer (repo cm)]
   \<and> name (fst (common_container_config cm h w)) = repo cm
   \<and> calls (snd (create_container_from_cached_image cm h w))
       = calls w @ [Run (''featbench_'' @ repo_lower cm @ '':'' @ repo_id cm)
                        (fst (common_container_config cm h w))]
   \<and> calls (snd (create_new_container cm h w))
       = calls w @ (if faults w (Build (repo cm)) = None
                    then [Build (repo cm),
                          Run (built_ref w (repo cm)) (fst (common_container_config cm h w))]
                    else [Build (repo cm)])
   \<and> calls (snd (check_cached_image cm w))
       = calls w @ [GetImage (''featbench_'' @ repo_lower cm @ '':'' @ repo_id cm)]
   \<and> calls (snd (save_container_as_image cm c w))
       = calls w @ [Commit (cname c) (''featbench_'' @ repo_lower cm) (repo_id cm)]
   \<and> (fst (save_container_as_image cm c w) = Inr i \<longrightarrow>
        images (snd (save_container_as_image cm c w))
          (''featbench_'' @ repo_lower cm @ '':'' @ repo_id cm) = Some i)
   \<and> repo_lower (CacheManager_init bp r t) = str_lower (repo (CacheManager_init bp r t))
   \<and> repo_id (CacheManager_init bp r t) = t"
  using check_cached_container_first_call[of w cm] common_container_config_name[of cm h w]
    create_from_cached_calls[of cm h w] create_new_container_calls[of cm h w]
    check_cached_image_calls[of cm w] save_calls[of cm c w] save_success_image[of cm c w i]
  by (simp add: imageKey_def CacheManager_init_def)

text \<open>C10 at a successful checkpoint of the demo repository.\<close>

theorem keys_agree_witness:
  "fst (save_container_as_image cm_demo (Container ''octocat_demo'') w_running)
     = Inr ''sha256:0123456789abcdef''
   \<and> images (snd (save_container_as_image cm_demo (Container ''octocat_demo'') w_running))
        (''featbench_'' @ repo_lower cm_demo @ '':'' @ repo_id cm_demo)
       = Some ''sha256:0123456789abcdef''
   \<and> calls (snd (check_cached_image cm_demo w_running))
       = calls w_running @ [GetImage (''featbench_'' @ repo_lower cm_demo @ '':'' @ repo_id cm_demo)]"
proof -
  let ?c = "Container ''octocat_demo''"
  have h1: "fst (save_container_as_image cm_demo ?c w_running) = Inr ''sha256:0123456789abcdef''"
    by (simp add: eval_simps)
  note t = keys_agree[of w_running cm_demo host_posix ?c "''sha256:0123456789abcdef''"]
  from t h1 have c1: "images (snd (save_container_as_image cm_demo ?c w_running))
        (''featbench_'' @ repo_lower cm_demo @ '':'' @ repo_id cm_demo)
       = Some ''sha256:0123456789abcdef''"
    by blast
  from t have c2: "calls (snd (check_cached_image cm_demo w_running))
       = calls w_running @ [GetImage (''featbench_'' @ repo_lower cm_demo @ '':'' @ repo_id cm_demo)]"
    by blast
  show ?thesis by (intro conjI h1 c1 c2)
qed

end
